theory Spec2Isabelle
  imports Main
begin

section \<open>Dynamic values, envelopes and the logical client\<close>

text \<open>
  Go's \<open>interface{}\<close> values that travel through the facades: the payloads the facades
  build and the JSON-shaped contents of a response envelope. \<open>VInt\<close> is a Go integer
  (\<open>int\<close> is taken to be 64 bits wide; the facades do no arithmetic on it),
  \<open>VFloat64\<close> a float64 holding a whole number (what \<open>json.Unmarshal\<close> makes of an
  integer literal), \<open>VSlice\<close> a slice and \<open>VMap\<close> a \<open>map[string]interface{}\<close>.
  Other Go values (\<open>json.Number\<close>, \<open>time.Time\<close>, structs) are outside this type.
  A map is an association list with distinct keys; a nil map or slice and an empty one are both the empty list here (the facades
  only ever take \<open>len\<close> of them). Where a facade \<^emph>\<open>returns\<close> a map or a slice, nil is
  \<open>None\<close>.
\<close>

datatype val =
    VNil
  | VBool bool
  | VInt int
  | VFloat64 int
  | VString string
  | VSlice "val list"
  | VMap "(string \<times> val) list"

type_synonym gomap = "(string \<times> val) list"

text \<open>
  The errors of the three packages. \<open>PathError op path err\<close> is \<open>os.PathError\<close>, whose
  third field is the wrapped cause. \<open>TransportError\<close> stands for whatever error the
  logical client returns, \<open>NewClientError\<close> for a failure of \<open>api.NewClient\<close>,
  \<open>DecodeError\<close> for the error of \<open>mapstructure.Decode\<close> (its message is not modelled).
\<close>

datatype error =
    cubbyhole_ErrEmptyPath      \<comment> \<open>\<open>cubbyhole: path is empty\<close>\<close>
  | cubbyhole_ErrNoSecretData   \<comment> \<open>\<open>cubbyhole: no secret data\<close>\<close>
  | kv1_ErrEmptyPath            \<comment> \<open>\<open>vault: secret path is empty\<close>\<close>
  | kv2_ErrEmptyPath            \<comment> \<open>\<open>kv2: secret path is empty\<close>\<close>
  | kv2_ErrNoVersion            \<comment> \<open>\<open>kv2: must specify at least one version\<close>\<close>
  | PathError string string error
  | TransportError string
  | NewClientError string
  | DecodeError

text \<open>\<open>api.Secret\<close>: the facades read its \<open>Data\<close> field only.\<close>

record api_Secret =
  Data :: gomap

text \<open>
  The \<open>LogicalClient\<close> interface. One constructor per method; a transport answers a call
  with an error or with a \<open>*api.Secret\<close>, which may be nil (\<open>None\<close>).
\<close>

datatype call =
    Read string
  | ReadWithData string "(string \<times> string list) list"
  | List string
  | Write string gomap
  | Delete string
  | DeleteWithData string "(string \<times> string list) list"
  | Unwrap string

type_synonym LogicalClient = "call \<Rightarrow> error + api_Secret option"

text \<open>
  The \<open>Client\<close> struct, the same in the three packages: the mount path and the logical
  client, nil (\<open>None\<close>) until injected or built on first use.
\<close>

record Client =
  mountPath :: string
  client :: "LogicalClient option"

definition NewClient :: "string \<Rightarrow> LogicalClient option \<Rightarrow> Client" where
  "NewClient path cl = \<lparr>mountPath = path, client = cl\<rparr>"

text \<open>
  What a method call leaves behind: the value or error it returns, the receiver after the
  call (the methods have pointer receivers and assign to its fields), and the calls it
  issued through the logical client, in order.
\<close>

record 'a run =
  result :: "error + 'a"
  after :: Client
  calls :: "call list"

text \<open>
  \<open>api.NewClient(api.DefaultConfig())\<close> followed by \<open>.Logical()\<close> depends on the
  process environment only: its outcome is a parameter of every method.
\<close>

type_synonym ambient = "error + LogicalClient"

definition vaultClient :: "ambient \<Rightarrow> Client \<Rightarrow> (error + LogicalClient) \<times> Client" where
  "vaultClient amb c =
     (case client c of
        Some cl \<Rightarrow> (Inr cl, c)
      | None \<Rightarrow>
          (case amb of
             Inl err \<Rightarrow> (Inl err, c)
           | Inr cl \<Rightarrow> (Inr cl, c\<lparr>client := Some cl\<rparr>)))"

section \<open>Joining paths\<close>

text \<open>
  \<open>var pathJoin = path.Join\<close>. \<open>path.Join\<close> drops the leading empty elements, puts a
  slash between the others and cleans the result; it returns the empty string when every
  element is empty. \<open>path.Clean\<close> is read element by element: empty elements and \<open>.\<close>
  vanish, \<open>..\<close> removes the element before it (in a rooted path it vanishes at the root,
  in a relative one it stays when there is nothing to remove), and an empty result is
  \<open>.\<close>.
\<close>

fun splitSlash :: "string \<Rightarrow> string list" where
  "splitSlash [] = [[]]"
| "splitSlash (c # cs) =
     (if c = CHR ''/'' then [] # splitSlash cs
      else (case splitSlash cs of
              [] \<Rightarrow> [[c]]
            | e # es \<Rightarrow> (c # e) # es))"

fun joinSlash :: "string list \<Rightarrow> string" where
  "joinSlash [] = []"
| "joinSlash [e] = e"
| "joinSlash (e # f # es) = e @ CHR ''/'' # joinSlash (f # es)"

text \<open>The elements kept so far, the last one first.\<close>

definition cleanElem :: "bool \<Rightarrow> string list \<Rightarrow> string \<Rightarrow> string list" where
  "cleanElem rooted out e =
     (if e = [] \<or> e = ''.'' then out
      else if e = ''..'' then
        (case out of
           [] \<Rightarrow> (if rooted then [] else [''..''])
         | t # ts \<Rightarrow> (if t = ''..'' then ''..'' # out else ts))
      else e # out)"

definition path_Clean :: "string \<Rightarrow> string" where
  "path_Clean p =
     (case p of
        [] \<Rightarrow> ''.''
      | c # _ \<Rightarrow>
          (let rooted = (c = CHR ''/'');
               out = rev (foldl (cleanElem rooted) [] (splitSlash p))
           in if rooted then CHR ''/'' # joinSlash out
              else if out = [] then ''.''
              else joinSlash out))"

definition path_Join :: "string list \<Rightarrow> string" where
  "path_Join elem =
     (case dropWhile (\<lambda>e. e = []) elem of
        [] \<Rightarrow> []
      | e # es \<Rightarrow> path_Clean (joinSlash (e # es)))"

definition pathJoin :: "string list \<Rightarrow> string" where
  "pathJoin = path_Join"

text \<open>
  Every method tests \<open>secret == nil || len(secret.Data) == 0\<close> before it looks at the
  response: \<open>secretData\<close> is \<open>None\<close> when that test holds and the data map otherwise.
\<close>

definition secretData :: "api_Secret option \<Rightarrow> gomap option" where
  "secretData secret =
     (case secret of
        None \<Rightarrow> None
      | Some s \<Rightarrow> (if length (Data s) = 0 then None else Some (Data s)))"

abbreviation ret :: "error + 'a \<Rightarrow> Client \<Rightarrow> call list \<Rightarrow> 'a run" where
  "ret r c cs \<equiv> \<lparr>result = r, after = c, calls = cs\<rparr>"

text \<open>\<open>_, err = client.Write(...); return err\<close>: the response is dropped.\<close>

definition errOnly :: "error + api_Secret option \<Rightarrow> error + unit" where
  "errOnly r = (case r of Inl err \<Rightarrow> Inl err | Inr _ \<Rightarrow> Inr ())"

section \<open>Decoding with mapstructure\<close>

text \<open>
  \<open>mapstructure.Decode\<close> (v1.3.3, default configuration: tag name \<open>mapstructure\<close>, no
  weak typing, no decode hook, unused keys ignored) is read off for the target types of
  this repository. A struct field is looked up under its \<open>mapstructure\<close> tag, or under
  its Go name when it has none (\<open>json\<close> tags are not consulted): first the key itself,
  then any key that \<open>strings.EqualFold\<close> equates with it. A key that is absent, or whose
  value is nil, leaves the field at its zero value. The errors of all fields are
  collected into one error.

  \<open>EqualFold\<close> is modelled for a second argument of ASCII characters, on UTF-8 bytes:
  a letter matches itself in either case, \<open>k\<close> also the Kelvin sign (E2 84 AA) and
  \<open>s\<close> also the long s (C5 BF). When several keys match, Go picks one in map order;
  here it is the first of the list.
\<close>

definition toLowerASCII :: "char \<Rightarrow> char" where
  "toLowerASCII c =
     (case map_of (zip ''ABCDEFGHIJKLMNOPQRSTUVWXYZ'' ''abcdefghijklmnopqrstuvwxyz'') c of
        None \<Rightarrow> c
      | Some l \<Rightarrow> l)"

definition foldRune :: "char \<Rightarrow> string \<Rightarrow> string option" where
  "foldRune n s =
     (case s of
        [] \<Rightarrow> None
      | k # ks \<Rightarrow>
          if toLowerASCII k = toLowerASCII n then Some ks
          else if toLowerASCII n = CHR ''k'' \<and> take 3 s = [CHR 0xE2, CHR 0x84, CHR 0xAA]
            then Some (drop 3 s)
          else if toLowerASCII n = CHR ''s'' \<and> take 2 s = [CHR 0xC5, CHR 0xBF]
            then Some (drop 2 s)
          else None)"

fun EqualFold :: "string \<Rightarrow> string \<Rightarrow> bool" where
  "EqualFold s [] = (s = [])"
| "EqualFold s (n # ns) =
     (case foldRune n s of
        None \<Rightarrow> False
      | Some r \<Rightarrow> EqualFold r ns)"

definition fieldValue :: "string \<Rightarrow> gomap \<Rightarrow> val option" where
  "fieldValue name m =
     (case map_of m name of
        Some v \<Rightarrow> Some v
      | None \<Rightarrow> map_option snd (find (\<lambda>kv. EqualFold (fst kv) name) m))"

definition decodeField :: "(val \<Rightarrow> error + 'a) \<Rightarrow> 'a \<Rightarrow> string \<Rightarrow> gomap \<Rightarrow> error + 'a" where
  "decodeField dec zero name m =
     (case fieldValue name m of
        None \<Rightarrow> Inr zero
      | Some v \<Rightarrow> dec v)"

definition decodeStruct :: "(gomap \<Rightarrow> error + 'a) \<Rightarrow> 'a \<Rightarrow> val \<Rightarrow> error + 'a" where
  "decodeStruct fromMap zero v =
     (case v of
        VNil \<Rightarrow> Inr zero
      | VMap m \<Rightarrow> fromMap m
      | _ \<Rightarrow> Inl DecodeError)"

definition decodeBool :: "val \<Rightarrow> error + bool" where
  "decodeBool v =
     (case v of
        VNil \<Rightarrow> Inr False
      | VBool b \<Rightarrow> Inr b
      | _ \<Rightarrow> Inl DecodeError)"

text \<open>
  An integer field takes a Go integer, or a float64 converted with \<open>int64(f)\<close>; outside
  the range of int64 that conversion gives the smallest int64 (on amd64).
\<close>

definition decodeInt :: "val \<Rightarrow> error + int" where
  "decodeInt v =
     (case v of
        VNil \<Rightarrow> Inr 0
      | VInt n \<Rightarrow> Inr n
      | VFloat64 f \<Rightarrow> Inr (if - (2 ^ 63) \<le> f \<and> f < 2 ^ 63 then f else - (2 ^ 63))
      | _ \<Rightarrow> Inl DecodeError)"

definition decodeString :: "val \<Rightarrow> error + string" where
  "decodeString v =
     (case v of
        VNil \<Rightarrow> Inr []
      | VString s \<Rightarrow> Inr s
      | _ \<Rightarrow> Inl DecodeError)"

text \<open>
  \<open>time.Time\<close> is a struct without exported fields: a map decodes to the zero time, any
  other value that is not nil fails. A time is a number here, the zero time is 0.
\<close>

type_synonym Time = int

definition decodeTime :: "val \<Rightarrow> error + Time" where
  "decodeTime v =
     (case v of
        VNil \<Rightarrow> Inr 0
      | VMap m \<Rightarrow> Inr 0
      | _ \<Rightarrow> Inl DecodeError)"

fun collect :: "(error + 'a) list \<Rightarrow> error + 'a list" where
  "collect [] = Inr []"
| "collect (r # rs) =
     (case (r, collect rs) of
        (Inr x, Inr xs) \<Rightarrow> Inr (x # xs)
      | _ \<Rightarrow> Inl DecodeError)"

text \<open>\<open>[]string\<close>: an empty source slice leaves the target nil.\<close>

definition decodeStrings :: "val \<Rightarrow> error + string list option" where
  "decodeStrings v =
     (case v of
        VNil \<Rightarrow> Inr None
      | VSlice xs \<Rightarrow>
          (if xs = [] then Inr None
           else (case collect (map decodeString xs) of
                   Inl err \<Rightarrow> Inl err
                 | Inr ss \<Rightarrow> Inr (Some ss)))
      | _ \<Rightarrow> Inl DecodeError)"

text \<open>\<open>map[string]interface{}\<close>: the entries are taken over as they are.\<close>

definition decodeMap :: "val \<Rightarrow> error + gomap option" where
  "decodeMap v =
     (case v of
        VNil \<Rightarrow> Inr None
      | VMap m \<Rightarrow> Inr (Some m)
      | _ \<Rightarrow> Inl DecodeError)"

text \<open>The anonymous struct \<open>struct { Keys []string `mapstructure:"keys"` }\<close>.\<close>

definition Keys_fromMap :: "gomap \<Rightarrow> error + string list option" where
  "Keys_fromMap m = decodeField decodeStrings None ''keys'' m"

section \<open>Package cubbyhole\<close>

definition cubbyhole_defaultMountPath :: string where
  "cubbyhole_defaultMountPath = ''/cubbyhole''"

definition cubbyhole_secretPath :: "Client \<Rightarrow> string \<Rightarrow> (error + string) \<times> Client" where
  "cubbyhole_secretPath c path =
     (if path = [] then (Inl cubbyhole_ErrEmptyPath, c)
      else
        (let c1 = (if mountPath c = [] then c\<lparr>mountPath := cubbyhole_defaultMountPath\<rparr> else c)
         in (Inr (pathJoin [mountPath c1, path]), c1)))"

definition cubbyhole_ReadSecret :: "ambient \<Rightarrow> Client \<Rightarrow> string \<Rightarrow> (gomap option) run" where
  "cubbyhole_ReadSecret amb c path =
     (case cubbyhole_secretPath c path of
        (Inl err, c1) \<Rightarrow> ret (Inl err) c1 []
      | (Inr p, c1) \<Rightarrow>
          (case vaultClient amb c1 of
             (Inl err, c2) \<Rightarrow> ret (Inl err) c2 []
           | (Inr cl, c2) \<Rightarrow>
               (case cl (Read p) of
                  Inl err \<Rightarrow> ret (Inl err) c2 [Read p]
                | Inr secret \<Rightarrow>
                    (case secretData secret of
                       None \<Rightarrow>
                         ret (Inl (PathError ''ReadSecret'' p cubbyhole_ErrNoSecretData)) c2 [Read p]
                     | Some d \<Rightarrow> ret (Inr (Some d)) c2 [Read p]))))"

definition cubbyhole_ListSecrets :: "ambient \<Rightarrow> Client \<Rightarrow> string \<Rightarrow> (string list option) run" where
  "cubbyhole_ListSecrets amb c path =
     (case cubbyhole_secretPath c path of
        (Inl err, c1) \<Rightarrow> ret (Inl err) c1 []
      | (Inr p, c1) \<Rightarrow>
          (case vaultClient amb c1 of
             (Inl err, c2) \<Rightarrow> ret (Inl err) c2 []
           | (Inr cl, c2) \<Rightarrow>
               (case cl (List p) of
                  Inl err \<Rightarrow> ret (Inl err) c2 [List p]
                | Inr secret \<Rightarrow>
                    (case secretData secret of
                       None \<Rightarrow>
                         ret (Inl (PathError ''ListSecrets'' p cubbyhole_ErrNoSecretData)) c2 [List p]
                     | Some d \<Rightarrow> ret (Keys_fromMap d) c2 [List p]))))"

definition cubbyhole_WriteSecret :: "ambient \<Rightarrow> Client \<Rightarrow> string \<Rightarrow> gomap \<Rightarrow> unit run" where
  "cubbyhole_WriteSecret amb c path data =
     (case cubbyhole_secretPath c path of
        (Inl err, c1) \<Rightarrow> ret (Inl err) c1 []
      | (Inr p, c1) \<Rightarrow>
          (case vaultClient amb c1 of
             (Inl err, c2) \<Rightarrow> ret (Inl err) c2 []
           | (Inr cl, c2) \<Rightarrow> ret (errOnly (cl (Write p data))) c2 [Write p data]))"

definition cubbyhole_DeleteSecret :: "ambient \<Rightarrow> Client \<Rightarrow> string \<Rightarrow> unit run" where
  "cubbyhole_DeleteSecret amb c path =
     (case cubbyhole_secretPath c path of
        (Inl err, c1) \<Rightarrow> ret (Inl err) c1 []
      | (Inr p, c1) \<Rightarrow>
          (case vaultClient amb c1 of
             (Inl err, c2) \<Rightarrow> ret (Inl err) c2 []
           | (Inr cl, c2) \<Rightarrow> ret (errOnly (cl (Delete p))) c2 [Delete p]))"

section \<open>Package kv/v1\<close>

definition kv1_defaultMountPath :: string where
  "kv1_defaultMountPath = ''/secret''"

definition kv1_secretPath :: "Client \<Rightarrow> string \<Rightarrow> (error + string) \<times> Client" where
  "kv1_secretPath c path =
     (if path = [] then (Inl kv1_ErrEmptyPath, c)
      else
        (let c1 = (if mountPath c = [] then c\<lparr>mountPath := kv1_defaultMountPath\<rparr> else c)
         in (Inr (pathJoin [mountPath c1, path]), c1)))"

definition kv1_ReadSecret :: "ambient \<Rightarrow> Client \<Rightarrow> string \<Rightarrow> (gomap option) run" where
  "kv1_ReadSecret amb c path =
     (case kv1_secretPath c path of
        (Inl err, c1) \<Rightarrow> ret (Inl err) c1 []
      | (Inr p, c1) \<Rightarrow>
          (case vaultClient amb c1 of
             (Inl err, c2) \<Rightarrow> ret (Inl err) c2 []
           | (Inr cl, c2) \<Rightarrow>
               (case cl (Read p) of
                  Inl err \<Rightarrow> ret (Inl err) c2 [Read p]
                | Inr secret \<Rightarrow>
                    (case secretData secret of
                       None \<Rightarrow> ret (Inr None) c2 [Read p]
                     | Some d \<Rightarrow> ret (Inr (Some d)) c2 [Read p]))))"

definition kv1_ListSecrets :: "ambient \<Rightarrow> Client \<Rightarrow> string \<Rightarrow> (string list option) run" where
  "kv1_ListSecrets amb c path =
     (case kv1_secretPath c path of
        (Inl err, c1) \<Rightarrow> ret (Inl err) c1 []
      | (Inr p, c1) \<Rightarrow>
          (case vaultClient amb c1 of
             (Inl err, c2) \<Rightarrow> ret (Inl err) c2 []
           | (Inr cl, c2) \<Rightarrow>
               (case cl (List p) of
                  Inl err \<Rightarrow> ret (Inl err) c2 [List p]
                | Inr secret \<Rightarrow>
                    (case secretData secret of
                       None \<Rightarrow> ret (Inr None) c2 [List p]
                     | Some d \<Rightarrow> ret (Keys_fromMap d) c2 [List p]))))"

definition kv1_WriteSecret :: "ambient \<Rightarrow> Client \<Rightarrow> string \<Rightarrow> gomap \<Rightarrow> unit run" where
  "kv1_WriteSecret amb c path data =
     (case kv1_secretPath c path of
        (Inl err, c1) \<Rightarrow> ret (Inl err) c1 []
      | (Inr p, c1) \<Rightarrow>
          (case vaultClient amb c1 of
             (Inl err, c2) \<Rightarrow> ret (Inl err) c2 []
           | (Inr cl, c2) \<Rightarrow> ret (errOnly (cl (Write p data))) c2 [Write p data]))"

definition kv1_DeleteSecret :: "ambient \<Rightarrow> Client \<Rightarrow> string \<Rightarrow> unit run" where
  "kv1_DeleteSecret amb c path =
     (case kv1_secretPath c path of
        (Inl err, c1) \<Rightarrow> ret (Inl err) c1 []
      | (Inr p, c1) \<Rightarrow>
          (case vaultClient amb c1 of
             (Inl err, c2) \<Rightarrow> ret (Inl err) c2 []
           | (Inr cl, c2) \<Rightarrow> ret (errOnly (cl (Delete p))) c2 [Delete p]))"

section \<open>Package kv/v2\<close>

definition kv2_defaultMountPath :: string where
  "kv2_defaultMountPath = ''/secret''"

record SecretConfig =
  cfg_MaxVersions :: int
  cfg_CASRequired :: bool
  cfg_DeleteVersionAfter :: int

record SecretVersion =
  sv_CreatedTime :: Time
  sv_DeletionTime :: Time
  sv_Destroyed :: bool
  sv_Version :: int

record SecretMetadata =
  md_CreatedTime :: Time
  md_CurrentVersion :: int
  md_MaxVersions :: int
  md_OldestVersion :: int
  md_UpdatedTime :: Time
  md_Versions :: "(string \<times> SecretVersion) list option"

record Secret =
  Secret_Data :: "gomap option"
  Secret_Metadata :: SecretVersion

text \<open>The zero values \<open>SecretConfig{}\<close>, \<open>SecretVersion{}\<close>, \<open>SecretMetadata{}\<close>, \<open>Secret{}\<close>.\<close>

definition SecretConfig_zero :: SecretConfig where
  "SecretConfig_zero =
     \<lparr>cfg_MaxVersions = 0, cfg_CASRequired = False, cfg_DeleteVersionAfter = 0\<rparr>"

definition SecretVersion_zero :: SecretVersion where
  "SecretVersion_zero =
     \<lparr>sv_CreatedTime = 0, sv_DeletionTime = 0, sv_Destroyed = False, sv_Version = 0\<rparr>"

definition SecretMetadata_zero :: SecretMetadata where
  "SecretMetadata_zero =
     \<lparr>md_CreatedTime = 0, md_CurrentVersion = 0, md_MaxVersions = 0, md_OldestVersion = 0,
      md_UpdatedTime = 0, md_Versions = None\<rparr>"

definition Secret_zero :: Secret where
  "Secret_zero = \<lparr>Secret_Data = None, Secret_Metadata = SecretVersion_zero\<rparr>"

text \<open>
  The structs carry \<open>json\<close> tags only, so their fields are looked up under the Go names.
\<close>

definition SecretConfig_fromMap :: "gomap \<Rightarrow> error + SecretConfig" where
  "SecretConfig_fromMap m =
     (case (decodeField decodeInt 0 ''MaxVersions'' m,
            decodeField decodeBool False ''CASRequired'' m,
            decodeField decodeInt 0 ''DeleteVersionAfter'' m) of
        (Inr mv, Inr cas, Inr dva) \<Rightarrow>
          Inr \<lparr>cfg_MaxVersions = mv, cfg_CASRequired = cas, cfg_DeleteVersionAfter = dva\<rparr>
      | _ \<Rightarrow> Inl DecodeError)"

definition SecretVersion_fromMap :: "gomap \<Rightarrow> error + SecretVersion" where
  "SecretVersion_fromMap m =
     (case (decodeField decodeTime 0 ''CreatedTime'' m,
            decodeField decodeTime 0 ''DeletionTime'' m,
            decodeField decodeBool False ''Destroyed'' m,
            decodeField decodeInt 0 ''Version'' m) of
        (Inr ct, Inr dt, Inr d, Inr v) \<Rightarrow>
          Inr \<lparr>sv_CreatedTime = ct, sv_DeletionTime = dt, sv_Destroyed = d, sv_Version = v\<rparr>
      | _ \<Rightarrow> Inl DecodeError)"

definition Secret_fromMap :: "gomap \<Rightarrow> error + Secret" where
  "Secret_fromMap m =
     (case (decodeField decodeMap None ''Data'' m,
            decodeField (decodeStruct SecretVersion_fromMap SecretVersion_zero)
              SecretVersion_zero ''Metadata'' m) of
        (Inr d, Inr md) \<Rightarrow> Inr \<lparr>Secret_Data = d, Secret_Metadata = md\<rparr>
      | _ \<Rightarrow> Inl DecodeError)"

text \<open>\<open>map[string]SecretVersion\<close>: every entry is decoded as a struct.\<close>

definition decodeVersions :: "val \<Rightarrow> error + (string \<times> SecretVersion) list option" where
  "decodeVersions v =
     (case v of
        VNil \<Rightarrow> Inr None
      | VMap m \<Rightarrow>
          (case collect (map (\<lambda>kv. decodeStruct SecretVersion_fromMap SecretVersion_zero (snd kv)) m) of
             Inl err \<Rightarrow> Inl err
           | Inr svs \<Rightarrow> Inr (Some (zip (map fst m) svs)))
      | _ \<Rightarrow> Inl DecodeError)"

definition SecretMetadata_fromMap :: "gomap \<Rightarrow> error + SecretMetadata" where
  "SecretMetadata_fromMap m =
     (case (decodeField decodeTime 0 ''CreatedTime'' m,
            decodeField decodeInt 0 ''CurrentVersion'' m,
            decodeField decodeInt 0 ''MaxVersions'' m,
            decodeField decodeInt 0 ''OldestVersion'' m,
            decodeField decodeTime 0 ''UpdatedTime'' m,
            decodeField decodeVersions None ''Versions'' m) of
        (Inr ct, Inr cv, Inr mv, Inr ov, Inr ut, Inr vs) \<Rightarrow>
          Inr \<lparr>md_CreatedTime = ct, md_CurrentVersion = cv, md_MaxVersions = mv,
               md_OldestVersion = ov, md_UpdatedTime = ut, md_Versions = vs\<rparr>
      | _ \<Rightarrow> Inl DecodeError)"

text \<open>
  \<open>json.Marshal(cfg)\<close> followed by \<open>json.Unmarshal\<close> into a \<open>map[string]interface{}\<close>:
  every field is \<open>omitempty\<close>, and a number comes back as the float64 nearest to it
  (ties to even). Neither step can fail on a \<open>SecretConfig\<close>.
\<close>

fun bitlen :: "nat \<Rightarrow> nat" where
  "bitlen n = (if n = 0 then 0 else Suc (bitlen (n div 2)))"

declare bitlen.simps [simp del]

definition float64_of_int :: "int \<Rightarrow> int" where
  "float64_of_int n =
     (let a = nat \<bar>n\<bar>;
          e = (if 53 < bitlen a then bitlen a - 53 else 0);
          q = a div 2 ^ e;
          r = a mod 2 ^ e;
          q1 = (if 2 ^ e < 2 * r \<or> (2 * r = 2 ^ e \<and> odd q) then q + 1 else q)
      in sgn n * int (q1 * 2 ^ e))"

definition SecretConfig_toMap :: "SecretConfig \<Rightarrow> gomap" where
  "SecretConfig_toMap cfg =
     (if cfg_MaxVersions cfg = 0 then []
      else [(''max_versions'', VFloat64 (float64_of_int (cfg_MaxVersions cfg)))]) @
     (if cfg_CASRequired cfg then [(''cas_required'', VBool True)] else []) @
     (if cfg_DeleteVersionAfter cfg = 0 then []
      else [(''delete_version_after'', VFloat64 (float64_of_int (cfg_DeleteVersionAfter cfg)))])"

definition kv2_secretPath :: "Client \<Rightarrow> string \<Rightarrow> bool \<Rightarrow> (error + string) \<times> Client" where
  "kv2_secretPath c path metadata =
     (if path = [] then (Inl kv2_ErrEmptyPath, c)
      else
        (let c1 = (if mountPath c = [] then c\<lparr>mountPath := kv2_defaultMountPath\<rparr> else c);
             fields = [mountPath c1] @ (if metadata then [''metadata''] else [''data''])
         in (Inr (pathJoin (fields @ [path])), c1)))"

definition kv2_SetEngineConfig :: "ambient \<Rightarrow> Client \<Rightarrow> SecretConfig \<Rightarrow> unit run" where
  "kv2_SetEngineConfig amb c cfg =
     (case vaultClient amb c of
        (Inl err, c1) \<Rightarrow> ret (Inl err) c1 []
      | (Inr cl, c1) \<Rightarrow>
          (let data = SecretConfig_toMap cfg;
               p = pathJoin [mountPath c1, ''config'']
           in ret (errOnly (cl (Write p data))) c1 [Write p data]))"

definition kv2_EngineConfig :: "ambient \<Rightarrow> Client \<Rightarrow> SecretConfig run" where
  "kv2_EngineConfig amb c =
     (case vaultClient amb c of
        (Inl err, c1) \<Rightarrow> ret (Inl err) c1 []
      | (Inr cl, c1) \<Rightarrow>
          (let p = pathJoin [mountPath c1, ''config'']
           in (case cl (Read p) of
                 Inl err \<Rightarrow> ret (Inl err) c1 [Read p]
               | Inr secret \<Rightarrow>
                   (case secretData secret of
                      None \<Rightarrow> ret (Inr SecretConfig_zero) c1 [Read p]
                    | Some d \<Rightarrow>
                        ret (decodeField (decodeStruct SecretConfig_fromMap SecretConfig_zero)
                               SecretConfig_zero ''data'' d)
                          c1 [Read p]))))"

definition Itoa_digits :: string where
  "Itoa_digits = ''0123456789''"

fun digitsOf :: "nat \<Rightarrow> string" where
  "digitsOf n =
     (if n < 10 then [Itoa_digits ! n]
      else digitsOf (n div 10) @ [Itoa_digits ! (n mod 10)])"

declare digitsOf.simps [simp del]

text \<open>\<open>strconv.Itoa\<close>: the decimal digits, after a minus sign for a negative number.\<close>

definition Itoa :: "int \<Rightarrow> string" where
  "Itoa i = (if i < 0 then CHR ''-'' # digitsOf (nat (- i)) else digitsOf (nat i))"

definition kv2_ReadSecretVersion :: "ambient \<Rightarrow> Client \<Rightarrow> string \<Rightarrow> int \<Rightarrow> Secret run" where
  "kv2_ReadSecretVersion amb c path version =
     (case kv2_secretPath c path False of
        (Inl err, c1) \<Rightarrow> ret (Inl err) c1 []
      | (Inr p, c1) \<Rightarrow>
          (case vaultClient amb c1 of
             (Inl err, c2) \<Rightarrow> ret (Inl err) c2 []
           | (Inr cl, c2) \<Rightarrow>
               (let q = (if version > - 1
                         then ReadWithData p [(''version'', [Itoa version])]
                         else Read p)
                in (case cl q of
                      Inl err \<Rightarrow> ret (Inl err) c2 [q]
                    | Inr secret \<Rightarrow>
                        (case secretData secret of
                           None \<Rightarrow> ret (Inr Secret_zero) c2 [q]
                         | Some d \<Rightarrow>
                             ret (decodeField (decodeStruct Secret_fromMap Secret_zero)
                                    Secret_zero ''data'' d)
                               c2 [q])))))"

definition kv2_ReadSecretLatest :: "ambient \<Rightarrow> Client \<Rightarrow> string \<Rightarrow> Secret run" where
  "kv2_ReadSecretLatest amb c path = kv2_ReadSecretVersion amb c path (- 1)"

definition kv2_WriteSecretVersion ::
  "ambient \<Rightarrow> Client \<Rightarrow> string \<Rightarrow> int \<Rightarrow> gomap \<Rightarrow> SecretVersion run" where
  "kv2_WriteSecretVersion amb c path version data =
     (case kv2_secretPath c path False of
        (Inl err, c1) \<Rightarrow> ret (Inl err) c1 []
      | (Inr p, c1) \<Rightarrow>
          (case vaultClient amb c1 of
             (Inl err, c2) \<Rightarrow> ret (Inl err) c2 []
           | (Inr cl, c2) \<Rightarrow>
               (let d0 = [(''data'', VMap data)];
                    d = (if version > - 1
                         then d0 @ [(''options'', VMap [(''cas'', VInt version)])]
                         else d0)
                in (case cl (Write p d) of
                      Inl err \<Rightarrow> ret (Inl err) c2 [Write p d]
                    | Inr secret \<Rightarrow>
                        (case secretData secret of
                           None \<Rightarrow> ret (Inr SecretVersion_zero) c2 [Write p d]
                         | Some sd \<Rightarrow>
                             ret (decodeField (decodeStruct SecretVersion_fromMap SecretVersion_zero)
                                    SecretVersion_zero ''data'' sd)
                               c2 [Write p d])))))"

definition kv2_WriteSecretLatest :: "ambient \<Rightarrow> Client \<Rightarrow> string \<Rightarrow> gomap \<Rightarrow> SecretVersion run" where
  "kv2_WriteSecretLatest amb c path data = kv2_WriteSecretVersion amb c path (- 1) data"

definition kv2_DeleteSecretLatest :: "ambient \<Rightarrow> Client \<Rightarrow> string \<Rightarrow> unit run" where
  "kv2_DeleteSecretLatest amb c path =
     (case kv2_secretPath c path False of
        (Inl err, c1) \<Rightarrow> ret (Inl err) c1 []
      | (Inr p, c1) \<Rightarrow>
          (case vaultClient amb c1 of
             (Inl err, c2) \<Rightarrow> ret (Inl err) c2 []
           | (Inr cl, c2) \<Rightarrow> ret (errOnly (cl (Delete p))) c2 [Delete p]))"

text \<open>The payload \<open>{"versions": version}\<close> of the three version operations.\<close>

definition versionsPayload :: "int list \<Rightarrow> gomap" where
  "versionsPayload version = [(''versions'', VSlice (map VInt version))]"

definition kv2_DeleteSecretVersion :: "ambient \<Rightarrow> Client \<Rightarrow> string \<Rightarrow> int list \<Rightarrow> unit run" where
  "kv2_DeleteSecretVersion amb c path version =
     (case vaultClient amb c of
        (Inl err, c1) \<Rightarrow> ret (Inl err) c1 []
      | (Inr cl, c1) \<Rightarrow>
          (let p = pathJoin [mountPath c1, ''delete'', path]
           in ret (errOnly (cl (Write p (versionsPayload version)))) c1
                [Write p (versionsPayload version)]))"

definition kv2_UndeleteSecretVersion :: "ambient \<Rightarrow> Client \<Rightarrow> string \<Rightarrow> int list \<Rightarrow> unit run" where
  "kv2_UndeleteSecretVersion amb c path version =
     (if length version = 0 then ret (Inl kv2_ErrNoVersion) c []
      else
        (case vaultClient amb c of
           (Inl err, c1) \<Rightarrow> ret (Inl err) c1 []
         | (Inr cl, c1) \<Rightarrow>
             (let p = pathJoin [mountPath c1, ''undelete'', path]
              in ret (errOnly (cl (Write p (versionsPayload version)))) c1
                   [Write p (versionsPayload version)])))"

definition kv2_DestroySecretVersion :: "ambient \<Rightarrow> Client \<Rightarrow> string \<Rightarrow> int list \<Rightarrow> unit run" where
  "kv2_DestroySecretVersion amb c path version =
     (if length version = 0 then ret (Inl kv2_ErrNoVersion) c []
      else
        (case vaultClient amb c of
           (Inl err, c1) \<Rightarrow> ret (Inl err) c1 []
         | (Inr cl, c1) \<Rightarrow>
             (let p = pathJoin [mountPath c1, ''destroy'', path]
              in ret (errOnly (cl (Write p (versionsPayload version)))) c1
                   [Write p (versionsPayload version)])))"

text \<open>
  The field \<open>Data\<close> of the anonymous struct of \<open>ListSecrets\<close> has a \<open>json\<close> tag and no
  \<open>mapstructure\<close> tag: it is looked up under \<open>Data\<close>.
\<close>

definition kv2_ListSecrets :: "ambient \<Rightarrow> Client \<Rightarrow> string \<Rightarrow> (string list option) run" where
  "kv2_ListSecrets amb c path =
     (case kv2_secretPath c path True of
        (Inl err, c1) \<Rightarrow> ret (Inl err) c1 []
      | (Inr p, c1) \<Rightarrow>
          (case vaultClient amb c1 of
             (Inl err, c2) \<Rightarrow> ret (Inl err) c2 []
           | (Inr cl, c2) \<Rightarrow>
               (case cl (List p) of
                  Inl err \<Rightarrow> ret (Inl err) c2 [List p]
                | Inr secret \<Rightarrow>
                    (case secretData secret of
                       None \<Rightarrow> ret (Inr None) c2 [List p]
                     | Some d \<Rightarrow>
                         ret (decodeField (decodeStruct Keys_fromMap None) None ''Data'' d)
                           c2 [List p]))))"

definition kv2_ReadSecretMetadata :: "ambient \<Rightarrow> Client \<Rightarrow> string \<Rightarrow> SecretMetadata run" where
  "kv2_ReadSecretMetadata amb c path =
     (case kv2_secretPath c path True of
        (Inl err, c1) \<Rightarrow> ret (Inl err) c1 []
      | (Inr p, c1) \<Rightarrow>
          (case vaultClient amb c1 of
             (Inl err, c2) \<Rightarrow> ret (Inl err) c2 []
           | (Inr cl, c2) \<Rightarrow>
               (case cl (List p) of
                  Inl err \<Rightarrow> ret (Inl err) c2 [List p]
                | Inr secret \<Rightarrow>
                    (case secretData secret of
                       None \<Rightarrow> ret (Inr SecretMetadata_zero) c2 [List p]
                     | Some d \<Rightarrow>
                         ret (decodeField (decodeStruct SecretMetadata_fromMap SecretMetadata_zero)
                                SecretMetadata_zero ''data'' d)
                           c2 [List p]))))"

definition kv2_WriteSecretMetadata :: "ambient \<Rightarrow> Client \<Rightarrow> string \<Rightarrow> SecretConfig \<Rightarrow> unit run" where
  "kv2_WriteSecretMetadata amb c path cfg =
     (case kv2_secretPath c path True of
        (Inl err, c1) \<Rightarrow> ret (Inl err) c1 []
      | (Inr p, c1) \<Rightarrow>
          (case vaultClient amb c1 of
             (Inl err, c2) \<Rightarrow> ret (Inl err) c2 []
           | (Inr cl, c2) \<Rightarrow>
               (let data = SecretConfig_toMap cfg
                in ret (errOnly (cl (Write p data))) c2 [Write p data])))"

definition kv2_DeleteSecretMetadata :: "ambient \<Rightarrow> Client \<Rightarrow> string \<Rightarrow> unit run" where
  "kv2_DeleteSecretMetadata amb c path =
     (case kv2_secretPath c path True of
        (Inl err, c1) \<Rightarrow> ret (Inl err) c1 []
      | (Inr p, c1) \<Rightarrow>
          (case vaultClient amb c1 of
             (Inl err, c2) \<Rightarrow> ret (Inl err) c2 []
           | (Inr cl, c2) \<Rightarrow> ret (errOnly (cl (Delete p))) c2 [Delete p]))"

section \<open>Notions used in the statements\<close>

text \<open>
  The logical client a method ends up with: the injected one, or else the one built from
  the environment, if that succeeds.
\<close>

definition transportOf :: "ambient \<Rightarrow> Client \<Rightarrow> LogicalClient option" where
  "transportOf amb c =
     (case client c of
        Some cl \<Rightarrow> Some cl
      | None \<Rightarrow> (case amb of Inl err \<Rightarrow> None | Inr cl \<Rightarrow> Some cl))"

text \<open>The mount path of a facade once the default of its package is applied.\<close>

definition mountOr :: "string \<Rightarrow> Client \<Rightarrow> string" where
  "mountOr dflt c = (if mountPath c = [] then dflt else mountPath c)"

text \<open>A mock of the logical client that answers every call with the same response.\<close>

definition answering :: "api_Secret option \<Rightarrow> LogicalClient" where
  "answering secret = (\<lambda>q. Inr secret)"

text \<open>
  Mocks that expect one kind of call: a \<open>Read\<close> (a \<open>List\<close>) gets the response, every
  other call an error.
\<close>

definition answeringRead :: "api_Secret option \<Rightarrow> LogicalClient" where
  "answeringRead secret =
     (\<lambda>q. case q of Read p \<Rightarrow> Inr secret | _ \<Rightarrow> Inl (TransportError ''unexpected call''))"

definition answeringList :: "api_Secret option \<Rightarrow> LogicalClient" where
  "answeringList secret =
     (\<lambda>q. case q of List p \<Rightarrow> Inr secret | _ \<Rightarrow> Inl (TransportError ''unexpected call''))"


text \<open>The value of a string of decimal digits.\<close>

definition decimalValue :: "string \<Rightarrow> nat" where
  "decimalValue s = foldl (\<lambda>a d. 10 * a + (of_char d - 48)) 0 s"

text \<open>Some key of the map equals the name up to case folding.\<close>

definition hasField :: "string \<Rightarrow> gomap \<Rightarrow> bool" where
  "hasField name m = list_ex (\<lambda>kv. EqualFold (fst kv) name) m"

section \<open>Shared facts\<close>

lemma vaultClient_ok:
  "transportOf amb c = Some cl \<Longrightarrow> vaultClient amb c = (Inr cl, c\<lparr>client := Some cl\<rparr>)"
  by (auto simp: vaultClient_def transportOf_def split: option.splits sum.splits)

lemma vaultClient_none:
  "transportOf amb c = None \<Longrightarrow> \<exists>err. vaultClient amb c = (Inl err, c)"
  by (auto simp: vaultClient_def transportOf_def split: option.splits sum.splits)

lemma transportOf_mountPath [simp]:
  "transportOf amb (c\<lparr>mountPath := m\<rparr>) = transportOf amb c"
  by (simp add: transportOf_def)

lemma cubbyhole_secretPath_ok:
  "path \<noteq> [] \<Longrightarrow>
   cubbyhole_secretPath c path =
     (Inr (pathJoin [mountOr cubbyhole_defaultMountPath c, path]),
      c\<lparr>mountPath := mountOr cubbyhole_defaultMountPath c\<rparr>)"
  by (simp add: cubbyhole_secretPath_def mountOr_def Let_def)

lemma kv1_secretPath_ok:
  "path \<noteq> [] \<Longrightarrow>
   kv1_secretPath c path =
     (Inr (pathJoin [mountOr kv1_defaultMountPath c, path]),
      c\<lparr>mountPath := mountOr kv1_defaultMountPath c\<rparr>)"
  by (simp add: kv1_secretPath_def mountOr_def Let_def)

lemma kv2_secretPath_ok:
  "path \<noteq> [] \<Longrightarrow>
   kv2_secretPath c path metadata =
     (Inr (pathJoin [mountOr kv2_defaultMountPath c, if metadata then ''metadata'' else ''data'', path]),
      c\<lparr>mountPath := mountOr kv2_defaultMountPath c\<rparr>)"
  by (simp add: kv2_secretPath_def mountOr_def Let_def)

lemma secretData_None:
  "secretData secret = None \<longleftrightarrow> (secret = None \<or> (\<exists>s. secret = Some s \<and> Data s = []))"
  by (auto simp: secretData_def split: option.splits)

lemma secretData_Some:
  "Data s \<noteq> [] \<Longrightarrow> secretData (Some s) = Some (Data s)"
  by (simp add: secretData_def)

lemma foldRune_self: "foldRune n (n # ks) = Some ks"
  by (simp add: foldRune_def)

lemma EqualFold_refl: "EqualFold s s"
  by (induction s) (simp_all add: foldRune_self)

lemma fieldValue_absent:
  assumes "\<not> hasField name m"
  shows "fieldValue name m = None"
proof -
  from assms have no: "\<forall>kv \<in> set m. \<not> EqualFold (fst kv) name"
    by (simp add: hasField_def list_ex_iff)
  have "map_of m name = None"
  proof (cases "map_of m name")
    case (Some v)
    then have "(name, v) \<in> set m" by (rule map_of_SomeD)
    with no have "\<not> EqualFold name name" by fastforce
    then show ?thesis by (simp add: EqualFold_refl)
  qed simp
  moreover from no have "find (\<lambda>kv. EqualFold (fst kv) name) m = None"
    by (auto simp: find_None_iff)
  ultimately show ?thesis by (simp add: fieldValue_def)
qed

section \<open>Writing a secret version\<close>

lemma kv2_WriteSecretVersion_run:
  assumes "path \<noteq> []" and "transportOf amb c = Some cl"
  shows "calls (kv2_WriteSecretVersion amb c path version data) =
           [Write (pathJoin [mountOr kv2_defaultMountPath c, ''data'', path])
              ([(''data'', VMap data)] @
               (if version < 0 then [] else [(''options'', VMap [(''cas'', VInt version)])]))]"
  using assms
  by (simp add: kv2_WriteSecretVersion_def kv2_secretPath_ok vaultClient_ok Let_def
      split: sum.splits option.splits)

lemma kv2_secretPath_empty:
  "kv2_secretPath c [] metadata = (Inl kv2_ErrEmptyPath, c)"
  by (simp add: kv2_secretPath_def)

lemma kv2_WriteSecretVersion_no_call:
  assumes "path = [] \<or> transportOf amb c = None"
  shows "calls (kv2_WriteSecretVersion amb c path version data) = []"
proof (cases "path = []")
  case True
  then show ?thesis
    by (simp add: kv2_WriteSecretVersion_def kv2_secretPath_empty)
next
  case False
  with assms have "transportOf amb (c\<lparr>mountPath := mountOr kv2_defaultMountPath c\<rparr>) = None"
    by simp
  then obtain err where
    "vaultClient amb (c\<lparr>mountPath := mountOr kv2_defaultMountPath c\<rparr>) =
       (Inl err, c\<lparr>mountPath := mountOr kv2_defaultMountPath c\<rparr>)"
    using vaultClient_none by blast
  with False show ?thesis
    by (simp add: kv2_WriteSecretVersion_def kv2_secretPath_ok)
qed

text \<open>
  Claim C1. Whatever the path, the data map and the version, every call that
  \<open>WriteSecretVersion\<close> issues is a \<open>Write\<close> whose payload has the caller's map under
  \<open>data\<close>, no \<open>options\<close> when the version is negative, and \<open>options = {cas: version}\<close>
  otherwise. With a non-empty path and a logical client at hand it issues exactly one call.
\<close>

theorem kv2_WriteSecretVersion_payload:
  "(\<forall>q \<in> set (calls (kv2_WriteSecretVersion amb c path version data)).
      \<exists>p d. q = Write p d
        \<and> map_of d ''data'' = Some (VMap data)
        \<and> map_of d ''options'' =
            (if version < 0 then None else Some (VMap [(''cas'', VInt version)])))
   \<and> (path \<noteq> [] \<and> transportOf amb c \<noteq> None \<longrightarrow>
        length (calls (kv2_WriteSecretVersion amb c path version data)) = 1)"
proof (cases "path = [] \<or> transportOf amb c = None")
  case True
  then show ?thesis
    using kv2_WriteSecretVersion_no_call [of path amb c version data] by auto
next
  case False
  then obtain cl where "path \<noteq> []" and "transportOf amb c = Some cl" by auto
  then show ?thesis
    using kv2_WriteSecretVersion_run [of path amb c cl version data] by simp
qed


lemmas eval_defs =
  NewClient_def answering_def transportOf_def vaultClient_def mountOr_def secretData_def
  errOnly_def pathJoin_def path_Join_def path_Clean_def cleanElem_def
  cubbyhole_defaultMountPath_def kv1_defaultMountPath_def kv2_defaultMountPath_def
  cubbyhole_secretPath_def kv1_secretPath_def kv2_secretPath_def

theorem kv2_WriteSecretVersion_payload_witness:
  "calls (kv2_WriteSecretVersion (Inl (NewClientError [])) (NewClient [] (Some (answering None)))
      ''test'' (- 1) [(''foo'', VString ''bar'')])
     = [Write ''/secret/data/test'' [(''data'', VMap [(''foo'', VString ''bar'')])]]
   \<and> calls (kv2_WriteSecretVersion (Inl (NewClientError [])) (NewClient [] (Some (answering None)))
      ''test'' 0 [(''foo'', VString ''bar'')])
     = [Write ''/secret/data/test''
          [(''data'', VMap [(''foo'', VString ''bar'')]), (''options'', VMap [(''cas'', VInt 0)])]]
   \<and> calls (kv2_WriteSecretVersion (Inl (NewClientError [])) (NewClient [] (Some (answering None)))
      ''test'' 5 [(''foo'', VString ''bar'')])
     = [Write ''/secret/data/test''
          [(''data'', VMap [(''foo'', VString ''bar'')]), (''options'', VMap [(''cas'', VInt 5)])]]"
  using kv2_WriteSecretVersion_payload [of "Inl (NewClientError [])"
      "NewClient [] (Some (answering None))" "''test''" "- 1" "[(''foo'', VString ''bar'')]"]
    kv2_WriteSecretVersion_payload [of "Inl (NewClientError [])"
      "NewClient [] (Some (answering None))" "''test''" 0 "[(''foo'', VString ''bar'')]"]
    kv2_WriteSecretVersion_payload [of "Inl (NewClientError [])"
      "NewClient [] (Some (answering None))" "''test''" 5 "[(''foo'', VString ''bar'')]"]
  by (simp add: kv2_WriteSecretVersion_def eval_defs)

section \<open>Reading from the cubbyhole\<close>

text \<open>
  Claim C5. For a non-empty path, cubbyhole \<open>ReadSecret\<close> answers a nil response, or one
  without data, with the path error whose path is the joined mount and path and whose
  cause is \<open>ErrNoSecretData\<close>; any other response with its data map, unchanged.
\<close>

theorem cubbyhole_ReadSecret_response:
  assumes "path \<noteq> []"
    and "transportOf amb c = Some cl"
    and "cl (Read (pathJoin [mountOr cubbyhole_defaultMountPath c, path])) = Inr secret"
  shows "result (cubbyhole_ReadSecret amb c path) =
           (case secret of
              None \<Rightarrow>
                Inl (PathError ''ReadSecret''
                       (pathJoin [mountOr cubbyhole_defaultMountPath c, path])
                       cubbyhole_ErrNoSecretData)
            | Some s \<Rightarrow>
                if length (Data s) = 0
                then Inl (PathError ''ReadSecret''
                            (pathJoin [mountOr cubbyhole_defaultMountPath c, path])
                            cubbyhole_ErrNoSecretData)
                else Inr (Some (Data s)))"
  using assms
  by (simp add: cubbyhole_ReadSecret_def cubbyhole_secretPath_ok vaultClient_ok secretData_def
      split: option.splits)

theorem cubbyhole_ReadSecret_response_witness:
  "result (cubbyhole_ReadSecret (Inl (NewClientError [])) (NewClient [] (Some (answering None)))
      ''test'')
     = Inl (PathError ''ReadSecret'' ''/cubbyhole/test'' cubbyhole_ErrNoSecretData)
   \<and> result (cubbyhole_ReadSecret (Inl (NewClientError []))
        (NewClient [] (Some (answering (Some \<lparr>Data = []\<rparr>)))) ''test'')
     = Inl (PathError ''ReadSecret'' ''/cubbyhole/test'' cubbyhole_ErrNoSecretData)
   \<and> result (cubbyhole_ReadSecret (Inl (NewClientError []))
        (NewClient [] (Some (answering (Some \<lparr>Data = [(''foo'', VString ''bar'')]\<rparr>)))) ''test'')
     = Inr (Some [(''foo'', VString ''bar'')])"
  using cubbyhole_ReadSecret_response [of "''test''" "Inl (NewClientError [])"
      "NewClient [] (Some (answering None))" "answering None" None]
    cubbyhole_ReadSecret_response [of "''test''" "Inl (NewClientError [])"
      "NewClient [] (Some (answering (Some \<lparr>Data = []\<rparr>)))"
      "answering (Some \<lparr>Data = []\<rparr>)" "Some \<lparr>Data = []\<rparr>"]
    cubbyhole_ReadSecret_response [of "''test''" "Inl (NewClientError [])"
      "NewClient [] (Some (answering (Some \<lparr>Data = [(''foo'', VString ''bar'')]\<rparr>)))"
      "answering (Some \<lparr>Data = [(''foo'', VString ''bar'')]\<rparr>)"
      "Some \<lparr>Data = [(''foo'', VString ''bar'')]\<rparr>"]
  by (simp add: eval_defs)

section \<open>Empty responses in kv/v1\<close>

lemma kv1_ReadSecret_run_ok:
  assumes "path \<noteq> []" and "transportOf amb c = Some cl"
    and "cl (Read (pathJoin [mountOr kv1_defaultMountPath c, path])) = Inr secret"
  shows "result (kv1_ReadSecret amb c path) = Inr (secretData secret)"
    and "calls (kv1_ReadSecret amb c path) = [Read (pathJoin [mountOr kv1_defaultMountPath c, path])]"
  using assms
  by (simp_all add: kv1_ReadSecret_def kv1_secretPath_ok vaultClient_ok split: option.splits)

lemma kv1_ListSecrets_run_empty:
  assumes "path \<noteq> []" and "transportOf amb c = Some cl"
    and "cl (List (pathJoin [mountOr kv1_defaultMountPath c, path])) = Inr secret"
    and "secretData secret = None"
  shows "result (kv1_ListSecrets amb c path) = Inr None"
    and "calls (kv1_ListSecrets amb c path) = [List (pathJoin [mountOr kv1_defaultMountPath c, path])]"
  using assms
  by (simp_all add: kv1_ListSecrets_def kv1_secretPath_ok vaultClient_ok)

lemma cubbyhole_run_empty:
  assumes "path \<noteq> []" and "transportOf amb c = Some cl" and "secretData secret = None"
  shows "cl (Read (pathJoin [mountOr cubbyhole_defaultMountPath c, path])) = Inr secret \<Longrightarrow>
         result (cubbyhole_ReadSecret amb c path) =
           Inl (PathError ''ReadSecret''
                  (pathJoin [mountOr cubbyhole_defaultMountPath c, path]) cubbyhole_ErrNoSecretData)"
    and "cl (List (pathJoin [mountOr cubbyhole_defaultMountPath c, path])) = Inr secret \<Longrightarrow>
         result (cubbyhole_ListSecrets amb c path) =
           Inl (PathError ''ListSecrets''
                  (pathJoin [mountOr cubbyhole_defaultMountPath c, path]) cubbyhole_ErrNoSecretData)"
  using assms
  by (simp_all add: cubbyhole_ReadSecret_def cubbyhole_ListSecrets_def cubbyhole_secretPath_ok
      vaultClient_ok)

text \<open>
  Claim C6. For a non-empty path and a response that is nil or has no data, each
  operation on its own: when the \<open>Read\<close> at the joined path gets that response, kv/v1
  \<open>ReadSecret\<close> issues that \<open>Read\<close> and returns nil without an error; when the \<open>List\<close>
  gets it, kv/v1 \<open>ListSecrets\<close> issues that \<open>List\<close> and returns nil without an error.
  The cubbyhole operations return the \<open>ErrNoSecretData\<close> path error on the same
  response. Nothing is assumed about the calls an operation does not issue.
\<close>

theorem kv1_empty_response_zero_value:
  assumes "path \<noteq> []"
    and "secret = None \<or> (\<exists>s. secret = Some s \<and> length (Data s) = 0)"
  shows "(transportOf amb c = Some cl
          \<and> cl (Read (pathJoin [mountOr kv1_defaultMountPath c, path])) = Inr secret
          \<longrightarrow> result (kv1_ReadSecret amb c path) = Inr None
            \<and> calls (kv1_ReadSecret amb c path) =
                [Read (pathJoin [mountOr kv1_defaultMountPath c, path])])
       \<and> (transportOf amb c = Some cl
          \<and> cl (List (pathJoin [mountOr kv1_defaultMountPath c, path])) = Inr secret
          \<longrightarrow> result (kv1_ListSecrets amb c path) = Inr None
            \<and> calls (kv1_ListSecrets amb c path) =
                [List (pathJoin [mountOr kv1_defaultMountPath c, path])])
       \<and> (transportOf amb c = Some cl
          \<and> cl (Read (pathJoin [mountOr cubbyhole_defaultMountPath c, path])) = Inr secret
          \<longrightarrow> result (cubbyhole_ReadSecret amb c path) =
                Inl (PathError ''ReadSecret''
                       (pathJoin [mountOr cubbyhole_defaultMountPath c, path])
                       cubbyhole_ErrNoSecretData))
       \<and> (transportOf amb c = Some cl
          \<and> cl (List (pathJoin [mountOr cubbyhole_defaultMountPath c, path])) = Inr secret
          \<longrightarrow> result (cubbyhole_ListSecrets amb c path) =
                Inl (PathError ''ListSecrets''
                       (pathJoin [mountOr cubbyhole_defaultMountPath c, path])
                       cubbyhole_ErrNoSecretData))"
proof -
  from assms(2) have e: "secretData secret = None"
    by (simp add: secretData_None)
  show ?thesis
    using assms(1) e kv1_ReadSecret_run_ok [of path amb c cl secret]
      kv1_ListSecrets_run_empty [of path amb c cl secret]
      cubbyhole_run_empty [of path amb c cl secret]
    by simp
qed

theorem kv1_empty_response_zero_value_witness:
  "result (kv1_ReadSecret (Inl (NewClientError [])) (NewClient [] (Some (answeringRead None)))
      ''test'')
     = Inr None
   \<and> calls (kv1_ReadSecret (Inl (NewClientError [])) (NewClient [] (Some (answeringRead None)))
      ''test'')
     = [Read ''/secret/test'']
   \<and> result (kv1_ListSecrets (Inl (NewClientError []))
      (NewClient ''/kv'' (Some (answeringList (Some \<lparr>Data = []\<rparr>)))) ''test'')
     = Inr None
   \<and> calls (kv1_ListSecrets (Inl (NewClientError []))
      (NewClient ''/kv'' (Some (answeringList (Some \<lparr>Data = []\<rparr>)))) ''test'')
     = [List ''/kv/test'']
   \<and> result (cubbyhole_ReadSecret (Inl (NewClientError []))
      (NewClient [] (Some (answeringRead None))) ''test'')
     = Inl (PathError ''ReadSecret'' ''/cubbyhole/test'' cubbyhole_ErrNoSecretData)
   \<and> result (cubbyhole_ListSecrets (Inl (NewClientError []))
      (NewClient ''/kv'' (Some (answeringList (Some \<lparr>Data = []\<rparr>)))) ''test'')
     = Inl (PathError ''ListSecrets'' ''/kv/test'' cubbyhole_ErrNoSecretData)"
  using kv1_empty_response_zero_value [of "''test''" None "Inl (NewClientError [])"
      "NewClient [] (Some (answeringRead None))" "answeringRead None"]
    kv1_empty_response_zero_value [of "''test''" "Some \<lparr>Data = []\<rparr>" "Inl (NewClientError [])"
      "NewClient ''/kv'' (Some (answeringList (Some \<lparr>Data = []\<rparr>)))"
      "answeringList (Some \<lparr>Data = []\<rparr>)"]
  by (simp add: kv1_ReadSecret_def kv1_ListSecrets_def cubbyhole_ReadSecret_def
      cubbyhole_ListSecrets_def answeringRead_def answeringList_def eval_defs)

section \<open>Reading a secret version\<close>

lemma Itoa_digits_nth:
  "k < 10 \<Longrightarrow> of_char (Itoa_digits ! k) = (48 + k :: nat)"
proof -
  assume "k < 10"
  then have "k \<in> {0, 1, 2, 3, 4, 5, 6, 7, 8, 9}" by auto
  then show ?thesis by (auto simp: Itoa_digits_def)
qed

lemma decimalValue_snoc:
  "decimalValue (s @ [d]) = 10 * decimalValue s + (of_char d - 48)"
  by (simp add: decimalValue_def)

lemma decimalValue_digitsOf: "decimalValue (digitsOf n) = n"
proof (induction n rule: digitsOf.induct)
  case (1 n)
  show ?case
  proof (cases "n < 10")
    case True
    then show ?thesis
      by (subst digitsOf.simps) (simp add: decimalValue_def Itoa_digits_nth)
  next
    case False
    with 1 have "decimalValue (digitsOf (n div 10)) = n div 10" by simp
    with False show ?thesis
      by (subst digitsOf.simps) (simp add: decimalValue_snoc Itoa_digits_nth)
  qed
qed

lemma Itoa_decimal: "0 \<le> version \<Longrightarrow> int (decimalValue (Itoa version)) = version"
  by (simp add: Itoa_def decimalValue_digitsOf)

lemma kv2_ReadSecretVersion_calls_ok:
  assumes "path \<noteq> []" and "transportOf amb c = Some cl"
  shows "calls (kv2_ReadSecretVersion amb c path version) =
           [if version < 0 then Read (pathJoin [mountOr kv2_defaultMountPath c, ''data'', path])
            else ReadWithData (pathJoin [mountOr kv2_defaultMountPath c, ''data'', path])
                   [(''version'', [Itoa version])]]"
  using assms
  by (simp add: kv2_ReadSecretVersion_def kv2_secretPath_ok vaultClient_ok Let_def
      split: sum.splits option.splits)

lemma kv2_ReadSecretVersion_negative:
  "version < 0 \<Longrightarrow> kv2_ReadSecretVersion amb c path version = kv2_ReadSecretVersion amb c path (- 1)"
  by (simp add: kv2_ReadSecretVersion_def Let_def split: prod.splits sum.splits)

text \<open>
  Claim C7. For a non-empty path, \<open>ReadSecretVersion\<close> with a negative version issues
  the plain \<open>Read\<close> and runs exactly as \<open>ReadSecretLatest\<close> does, whatever the response;
  with a version from 0 on it issues \<open>ReadWithData\<close> with the decimal string of the
  version under \<open>version\<close>.
\<close>

theorem kv2_ReadSecretVersion_latest_or_versioned:
  assumes "path \<noteq> []" and "transportOf amb c = Some cl"
  shows "(version < 0 \<longrightarrow>
            calls (kv2_ReadSecretVersion amb c path version) =
              [Read (pathJoin [mountOr kv2_defaultMountPath c, ''data'', path])]
          \<and> kv2_ReadSecretVersion amb c path version = kv2_ReadSecretLatest amb c path)
       \<and> (0 \<le> version \<longrightarrow>
            calls (kv2_ReadSecretVersion amb c path version) =
              [ReadWithData (pathJoin [mountOr kv2_defaultMountPath c, ''data'', path])
                 [(''version'', [Itoa version])]]
          \<and> int (decimalValue (Itoa version)) = version)"
  using assms kv2_ReadSecretVersion_calls_ok [of path amb c cl version]
    kv2_ReadSecretVersion_negative [of version amb c path] Itoa_decimal [of version]
  by (auto simp: kv2_ReadSecretLatest_def)

theorem kv2_ReadSecretVersion_latest_or_versioned_witness:
  "calls (kv2_ReadSecretVersion (Inl (NewClientError [])) (NewClient [] (Some (answering None)))
      ''test'' (- 1))
     = [Read ''/secret/data/test'']
   \<and> result (kv2_ReadSecretVersion (Inl (NewClientError [])) (NewClient [] (Some (answering None)))
      ''test'' (- 1))
     = result (kv2_ReadSecretLatest (Inl (NewClientError [])) (NewClient [] (Some (answering None)))
      ''test'')
   \<and> calls (kv2_ReadSecretVersion (Inl (NewClientError [])) (NewClient [] (Some (answering None)))
      ''test'' 12)
     = [ReadWithData ''/secret/data/test'' [(''version'', [''12''])]]
   \<and> calls (kv2_ReadSecretVersion (Inl (NewClientError [])) (NewClient [] (Some (answering None)))
      ''test'' 0)
     = [ReadWithData ''/secret/data/test'' [(''version'', [''0''])]]"
  using kv2_ReadSecretVersion_latest_or_versioned [of "''test''" "Inl (NewClientError [])"
      "NewClient [] (Some (answering None))" "answering None" "- 1"]
    kv2_ReadSecretVersion_latest_or_versioned [of "''test''" "Inl (NewClientError [])"
      "NewClient [] (Some (answering None))" "answering None" 12]
    kv2_ReadSecretVersion_latest_or_versioned [of "''test''" "Inl (NewClientError [])"
      "NewClient [] (Some (answering None))" "answering None" 0]
  by (simp add: kv2_ReadSecretVersion_def kv2_ReadSecretLatest_def eval_defs Itoa_def
      Itoa_digits_def digitsOf.simps)

section \<open>Reading secret metadata\<close>







section \<open>Listing without keys\<close>

lemma Keys_fromMap_absent: "\<not> hasField ''keys'' m \<Longrightarrow> Keys_fromMap m = Inr None"
  by (simp add: Keys_fromMap_def decodeField_def fieldValue_absent)

lemma cubbyhole_ListSecrets_result_ok:
  assumes "path \<noteq> []" and "transportOf amb c = Some cl"
    and "cl (List (pathJoin [mountOr cubbyhole_defaultMountPath c, path])) = Inr (Some s)"
    and "Data s \<noteq> []"
  shows "result (cubbyhole_ListSecrets amb c path) = Keys_fromMap (Data s)"
  using assms
  by (simp add: cubbyhole_ListSecrets_def cubbyhole_secretPath_ok vaultClient_ok secretData_Some)

lemma kv1_ListSecrets_result_ok:
  assumes "path \<noteq> []" and "transportOf amb c = Some cl"
    and "cl (List (pathJoin [mountOr kv1_defaultMountPath c, path])) = Inr (Some s)"
    and "Data s \<noteq> []"
  shows "result (kv1_ListSecrets amb c path) = Keys_fromMap (Data s)"
  using assms
  by (simp add: kv1_ListSecrets_def kv1_secretPath_ok vaultClient_ok secretData_Some)

lemma kv2_ListSecrets_result_ok:
  assumes "path \<noteq> []" and "transportOf amb c = Some cl"
    and "cl (List (pathJoin [mountOr kv2_defaultMountPath c, ''metadata'', path])) = Inr (Some s)"
    and "Data s \<noteq> []"
  shows "result (kv2_ListSecrets amb c path) =
           decodeField (decodeStruct Keys_fromMap None) None ''Data'' (Data s)"
  using assms
  by (simp add: kv2_ListSecrets_def kv2_secretPath_ok vaultClient_ok secretData_Some)

text \<open>
  Claim C10, as stated, fails. For kv/v2 the response \<open>{"data": "x"}\<close> is not empty and
  has no nested \<open>data.keys\<close>, yet \<open>ListSecrets\<close> returns the decode error: a string
  does not decode into the struct. For cubbyhole the response \<open>{"KEYS": ["a"]}\<close> has
  no key \<open>keys\<close>, yet \<open>ListSecrets\<close> returns \<open>["a"]\<close>: the decoder matches keys up to
  case.
\<close>

theorem ListSecrets_without_keys_counterexample:
  "map_of [(''data'', VString ''x'')] ''keys'' = None
   \<and> result (kv2_ListSecrets (Inl (NewClientError []))
      (NewClient ''/secret'' (Some (answering (Some \<lparr>Data = [(''data'', VString ''x'')]\<rparr>))))
      ''foo'')
     = Inl DecodeError
   \<and> map_of [(''KEYS'', VSlice [VString ''a''])] ''keys'' = None
   \<and> result (cubbyhole_ListSecrets (Inl (NewClientError []))
      (NewClient ''/cubbyhole''
         (Some (answering (Some \<lparr>Data = [(''KEYS'', VSlice [VString ''a''])]\<rparr>))))
      ''foo'')
     = Inr (Some [''a''])"
  by (simp add: kv2_ListSecrets_def cubbyhole_ListSecrets_def eval_defs Keys_fromMap_def
      decodeField_def decodeStruct_def fieldValue_def decodeStrings_def decodeString_def
      foldRune_def toLowerASCII_def)

text \<open>
  Claim C10, amended. For a non-empty path and a non-empty response: cubbyhole and kv/v1
  \<open>ListSecrets\<close> return nil without an error when no key of the response equals
  \<open>keys\<close> up to case folding; kv/v2 \<open>ListSecrets\<close> does when no key equals \<open>Data\<close> up
  to case folding, or the value found there is nil, or it is a map none of whose keys
  equals \<open>keys\<close> up to case folding.
\<close>

theorem ListSecrets_without_keys:
  assumes "path \<noteq> []" and "transportOf amb c = Some cl" and "Data s \<noteq> []"
  shows "(cl (List (pathJoin [mountOr cubbyhole_defaultMountPath c, path])) = Inr (Some s)
          \<and> \<not> hasField ''keys'' (Data s)
          \<longrightarrow> result (cubbyhole_ListSecrets amb c path) = Inr None)
       \<and> (cl (List (pathJoin [mountOr kv1_defaultMountPath c, path])) = Inr (Some s)
          \<and> \<not> hasField ''keys'' (Data s)
          \<longrightarrow> result (kv1_ListSecrets amb c path) = Inr None)
       \<and> (cl (List (pathJoin [mountOr kv2_defaultMountPath c, ''metadata'', path])) = Inr (Some s)
          \<and> (\<not> hasField ''Data'' (Data s)
              \<or> fieldValue ''Data'' (Data s) = Some VNil
              \<or> (\<exists>m. fieldValue ''Data'' (Data s) = Some (VMap m) \<and> \<not> hasField ''keys'' m))
          \<longrightarrow> result (kv2_ListSecrets amb c path) = Inr None)"
proof (intro conjI impI)
  assume "cl (List (pathJoin [mountOr cubbyhole_defaultMountPath c, path])) = Inr (Some s)
          \<and> \<not> hasField ''keys'' (Data s)"
  with assms show "result (cubbyhole_ListSecrets amb c path) = Inr None"
    by (simp add: cubbyhole_ListSecrets_result_ok Keys_fromMap_absent)
next
  assume "cl (List (pathJoin [mountOr kv1_defaultMountPath c, path])) = Inr (Some s)
          \<and> \<not> hasField ''keys'' (Data s)"
  with assms show "result (kv1_ListSecrets amb c path) = Inr None"
    by (simp add: kv1_ListSecrets_result_ok Keys_fromMap_absent)
next
  assume a: "cl (List (pathJoin [mountOr kv2_defaultMountPath c, ''metadata'', path])) = Inr (Some s)
          \<and> (\<not> hasField ''Data'' (Data s)
              \<or> fieldValue ''Data'' (Data s) = Some VNil
              \<or> (\<exists>m. fieldValue ''Data'' (Data s) = Some (VMap m) \<and> \<not> hasField ''keys'' m))"
  with assms have r: "result (kv2_ListSecrets amb c path) =
      decodeField (decodeStruct Keys_fromMap None) None ''Data'' (Data s)"
    by (simp add: kv2_ListSecrets_result_ok)
  from a have "decodeField (decodeStruct Keys_fromMap None) None ''Data'' (Data s) = Inr None"
    by (auto simp: decodeField_def decodeStruct_def fieldValue_absent Keys_fromMap_absent)
  with r show "result (kv2_ListSecrets amb c path) = Inr None" by simp
qed

theorem ListSecrets_without_keys_witness:
  "result (cubbyhole_ListSecrets (Inl (NewClientError []))
      (NewClient [] (Some (answering (Some \<lparr>Data = [(''foo'', VString ''bar'')]\<rparr>)))) ''test'')
     = Inr None
   \<and> result (kv1_ListSecrets (Inl (NewClientError []))
      (NewClient [] (Some (answering (Some \<lparr>Data = [(''foo'', VString ''bar'')]\<rparr>)))) ''test'')
     = Inr None
   \<and> result (kv2_ListSecrets (Inl (NewClientError []))
      (NewClient [] (Some (answering (Some \<lparr>Data = [(''foo'', VString ''bar'')]\<rparr>)))) ''test'')
     = Inr None
   \<and> result (kv2_ListSecrets (Inl (NewClientError []))
      (NewClient [] (Some (answering (Some \<lparr>Data = [(''data'', VMap [(''foo'', VString ''bar'')])]\<rparr>))))
      ''test'')
     = Inr None
   \<and> result (kv2_ListSecrets (Inl (NewClientError []))
      (NewClient [] (Some (answering (Some \<lparr>Data = [(''data'', VNil)]\<rparr>)))) ''test'')
     = Inr None"
  using ListSecrets_without_keys [of "''test''" "Inl (NewClientError [])"
      "NewClient [] (Some (answering (Some \<lparr>Data = [(''foo'', VString ''bar'')]\<rparr>)))"
      "answering (Some \<lparr>Data = [(''foo'', VString ''bar'')]\<rparr>)"
      "\<lparr>Data = [(''foo'', VString ''bar'')]\<rparr>"]
    ListSecrets_without_keys [of "''test''" "Inl (NewClientError [])"
      "NewClient [] (Some (answering (Some \<lparr>Data = [(''data'', VMap [(''foo'', VString ''bar'')])]\<rparr>)))"
      "answering (Some \<lparr>Data = [(''data'', VMap [(''foo'', VString ''bar'')])]\<rparr>)"
      "\<lparr>Data = [(''data'', VMap [(''foo'', VString ''bar'')])]\<rparr>"]
    ListSecrets_without_keys [of "''test''" "Inl (NewClientError [])"
      "NewClient [] (Some (answering (Some \<lparr>Data = [(''data'', VNil)]\<rparr>)))"
      "answering (Some \<lparr>Data = [(''data'', VNil)]\<rparr>)"
      "\<lparr>Data = [(''data'', VNil)]\<rparr>"]
  by (simp add: cubbyhole_ListSecrets_def kv1_ListSecrets_def kv2_ListSecrets_def eval_defs
      hasField_def Keys_fromMap_def decodeField_def decodeStruct_def fieldValue_def
      foldRune_def toLowerASCII_def)

section \<open>Version operations without versions\<close>

lemma kv2_Undelete_Destroy_without_versions:
  "kv2_UndeleteSecretVersion amb c path [] = ret (Inl kv2_ErrNoVersion) c []"
  "kv2_DestroySecretVersion amb c path [] = ret (Inl kv2_ErrNoVersion) c []"
  by (simp_all add: kv2_UndeleteSecretVersion_def kv2_DestroySecretVersion_def)

lemma kv2_DeleteSecretVersion_calls_ok:
  assumes "transportOf amb c = Some cl"
  shows "calls (kv2_DeleteSecretVersion amb c path version) =
           [Write (pathJoin [mountPath c, ''delete'', path]) (versionsPayload version)]"
  using assms
  by (simp add: kv2_DeleteSecretVersion_def vaultClient_ok Let_def)

text \<open>
  Claim C2 does not hold of \<open>DeleteSecretVersion\<close>: called without a version it returns
  no error and writes \<open>{"versions": []}\<close> to the delete path, where
  \<open>UndeleteSecretVersion\<close> and \<open>DestroySecretVersion\<close> return the error and issue no
  call.
\<close>

theorem kv2_DeleteSecretVersion_without_versions:
  "result (kv2_DeleteSecretVersion (Inl (NewClientError []))
      (NewClient ''/secret'' (Some (answering None))) ''foo'' [])
     = Inr ()
   \<and> calls (kv2_DeleteSecretVersion (Inl (NewClientError []))
      (NewClient ''/secret'' (Some (answering None))) ''foo'' [])
     = [Write ''/secret/delete/foo'' [(''versions'', VSlice [])]]
   \<and> result (kv2_UndeleteSecretVersion (Inl (NewClientError []))
      (NewClient ''/secret'' (Some (answering None))) ''foo'' [])
     = Inl kv2_ErrNoVersion
   \<and> calls (kv2_UndeleteSecretVersion (Inl (NewClientError []))
      (NewClient ''/secret'' (Some (answering None))) ''foo'' [])
     = []
   \<and> result (kv2_DestroySecretVersion (Inl (NewClientError []))
      (NewClient ''/secret'' (Some (answering None))) ''foo'' [])
     = Inl kv2_ErrNoVersion
   \<and> calls (kv2_DestroySecretVersion (Inl (NewClientError []))
      (NewClient ''/secret'' (Some (answering None))) ''foo'' [])
     = []"
  by (simp add: kv2_DeleteSecretVersion_def kv2_UndeleteSecretVersion_def
      kv2_DestroySecretVersion_def versionsPayload_def eval_defs)

section \<open>The empty path\<close>

lemma cubbyhole_secretPath_empty:
  "cubbyhole_secretPath c [] = (Inl cubbyhole_ErrEmptyPath, c)"
  by (simp add: cubbyhole_secretPath_def)

lemma kv1_secretPath_empty:
  "kv1_secretPath c [] = (Inl kv1_ErrEmptyPath, c)"
  by (simp add: kv1_secretPath_def)

lemma cubbyhole_empty_path:
  "cubbyhole_ReadSecret amb c [] = ret (Inl cubbyhole_ErrEmptyPath) c []"
  "cubbyhole_ListSecrets amb c [] = ret (Inl cubbyhole_ErrEmptyPath) c []"
  "cubbyhole_WriteSecret amb c [] data = ret (Inl cubbyhole_ErrEmptyPath) c []"
  "cubbyhole_DeleteSecret amb c [] = ret (Inl cubbyhole_ErrEmptyPath) c []"
  by (simp_all add: cubbyhole_ReadSecret_def cubbyhole_ListSecrets_def cubbyhole_WriteSecret_def
      cubbyhole_DeleteSecret_def cubbyhole_secretPath_empty)

lemma kv1_empty_path:
  "kv1_ReadSecret amb c [] = ret (Inl kv1_ErrEmptyPath) c []"
  "kv1_ListSecrets amb c [] = ret (Inl kv1_ErrEmptyPath) c []"
  "kv1_WriteSecret amb c [] data = ret (Inl kv1_ErrEmptyPath) c []"
  "kv1_DeleteSecret amb c [] = ret (Inl kv1_ErrEmptyPath) c []"
  by (simp_all add: kv1_ReadSecret_def kv1_ListSecrets_def kv1_WriteSecret_def
      kv1_DeleteSecret_def kv1_secretPath_empty)

lemma kv2_empty_path:
  "kv2_ReadSecretVersion amb c [] version = ret (Inl kv2_ErrEmptyPath) c []"
  "kv2_ReadSecretLatest amb c [] = ret (Inl kv2_ErrEmptyPath) c []"
  "kv2_WriteSecretVersion amb c [] version data = ret (Inl kv2_ErrEmptyPath) c []"
  "kv2_WriteSecretLatest amb c [] data = ret (Inl kv2_ErrEmptyPath) c []"
  "kv2_DeleteSecretLatest amb c [] = ret (Inl kv2_ErrEmptyPath) c []"
  "kv2_ListSecrets amb c [] = ret (Inl kv2_ErrEmptyPath) c []"
  "kv2_ReadSecretMetadata amb c [] = ret (Inl kv2_ErrEmptyPath) c []"
  "kv2_WriteSecretMetadata amb c [] cfg = ret (Inl kv2_ErrEmptyPath) c []"
  "kv2_DeleteSecretMetadata amb c [] = ret (Inl kv2_ErrEmptyPath) c []"
  by (simp_all add: kv2_ReadSecretVersion_def kv2_ReadSecretLatest_def kv2_WriteSecretVersion_def
      kv2_WriteSecretLatest_def kv2_DeleteSecretLatest_def kv2_ListSecrets_def
      kv2_ReadSecretMetadata_def kv2_WriteSecretMetadata_def kv2_DeleteSecretMetadata_def
      kv2_secretPath_empty)

text \<open>
  Claim C3 does not hold of the three version operations of kv/v2: with the empty path
  each returns no error and writes to the bare action path.
\<close>

theorem kv2_version_operations_accept_empty_path:
  "result (kv2_DeleteSecretVersion (Inl (NewClientError []))
      (NewClient ''/secret'' (Some (answering None))) [] [1])
     = Inr ()
   \<and> calls (kv2_DeleteSecretVersion (Inl (NewClientError []))
      (NewClient ''/secret'' (Some (answering None))) [] [1])
     = [Write ''/secret/delete'' [(''versions'', VSlice [VInt 1])]]
   \<and> result (kv2_UndeleteSecretVersion (Inl (NewClientError []))
      (NewClient ''/secret'' (Some (answering None))) [] [1])
     = Inr ()
   \<and> calls (kv2_UndeleteSecretVersion (Inl (NewClientError []))
      (NewClient ''/secret'' (Some (answering None))) [] [1])
     = [Write ''/secret/undelete'' [(''versions'', VSlice [VInt 1])]]
   \<and> result (kv2_DestroySecretVersion (Inl (NewClientError []))
      (NewClient ''/secret'' (Some (answering None))) [] [1])
     = Inr ()
   \<and> calls (kv2_DestroySecretVersion (Inl (NewClientError []))
      (NewClient ''/secret'' (Some (answering None))) [] [1])
     = [Write ''/secret/destroy'' [(''versions'', VSlice [VInt 1])]]"
  by (simp add: kv2_DeleteSecretVersion_def kv2_UndeleteSecretVersion_def
      kv2_DestroySecretVersion_def versionsPayload_def eval_defs)

section \<open>The mount path\<close>

lemma vaultClient_mountPath: "mountPath (snd (vaultClient amb c)) = mountPath c"
  by (simp add: vaultClient_def split: option.splits sum.splits)

lemma vaultClient_mountPath':
  "vaultClient amb c = (r, c1) \<Longrightarrow> mountPath c1 = mountPath c"
  using vaultClient_mountPath [of amb c] by simp

lemma cubbyhole_secretPath_mountPath:
  "cubbyhole_secretPath c path = (r, c1) \<Longrightarrow>
   mountPath c1 = (if path = [] then mountPath c else mountOr cubbyhole_defaultMountPath c)"
  by (auto simp: cubbyhole_secretPath_def mountOr_def Let_def split: if_splits)

lemma kv1_secretPath_mountPath:
  "kv1_secretPath c path = (r, c1) \<Longrightarrow>
   mountPath c1 = (if path = [] then mountPath c else mountOr kv1_defaultMountPath c)"
  by (auto simp: kv1_secretPath_def mountOr_def Let_def split: if_splits)

lemma kv2_secretPath_mountPath:
  "kv2_secretPath c path metadata = (r, c1) \<Longrightarrow>
   mountPath c1 = (if path = [] then mountPath c else mountOr kv2_defaultMountPath c)"
  by (auto simp: kv2_secretPath_def mountOr_def Let_def split: if_splits)

lemma cubbyhole_mountPath_after:
  "mountPath (after (cubbyhole_ReadSecret amb c path)) =
     (if path = [] then mountPath c else mountOr cubbyhole_defaultMountPath c)"
  "mountPath (after (cubbyhole_ListSecrets amb c path)) =
     (if path = [] then mountPath c else mountOr cubbyhole_defaultMountPath c)"
  "mountPath (after (cubbyhole_WriteSecret amb c path data)) =
     (if path = [] then mountPath c else mountOr cubbyhole_defaultMountPath c)"
  "mountPath (after (cubbyhole_DeleteSecret amb c path)) =
     (if path = [] then mountPath c else mountOr cubbyhole_defaultMountPath c)"
  by (auto simp: cubbyhole_ReadSecret_def cubbyhole_ListSecrets_def cubbyhole_WriteSecret_def
      cubbyhole_DeleteSecret_def
      dest!: cubbyhole_secretPath_mountPath vaultClient_mountPath'
      split: prod.splits sum.splits option.splits)

lemma kv1_mountPath_after:
  "mountPath (after (kv1_ReadSecret amb c path)) =
     (if path = [] then mountPath c else mountOr kv1_defaultMountPath c)"
  "mountPath (after (kv1_ListSecrets amb c path)) =
     (if path = [] then mountPath c else mountOr kv1_defaultMountPath c)"
  "mountPath (after (kv1_WriteSecret amb c path data)) =
     (if path = [] then mountPath c else mountOr kv1_defaultMountPath c)"
  "mountPath (after (kv1_DeleteSecret amb c path)) =
     (if path = [] then mountPath c else mountOr kv1_defaultMountPath c)"
  by (auto simp: kv1_ReadSecret_def kv1_ListSecrets_def kv1_WriteSecret_def
      kv1_DeleteSecret_def
      dest!: kv1_secretPath_mountPath vaultClient_mountPath'
      split: prod.splits sum.splits option.splits)

lemma kv2_mountPath_after_secretPath:
  "mountPath (after (kv2_ReadSecretVersion amb c path version)) =
     (if path = [] then mountPath c else mountOr kv2_defaultMountPath c)"
  "mountPath (after (kv2_WriteSecretVersion amb c path version data)) =
     (if path = [] then mountPath c else mountOr kv2_defaultMountPath c)"
  "mountPath (after (kv2_DeleteSecretLatest amb c path)) =
     (if path = [] then mountPath c else mountOr kv2_defaultMountPath c)"
  "mountPath (after (kv2_ListSecrets amb c path)) =
     (if path = [] then mountPath c else mountOr kv2_defaultMountPath c)"
  "mountPath (after (kv2_ReadSecretMetadata amb c path)) =
     (if path = [] then mountPath c else mountOr kv2_defaultMountPath c)"
  "mountPath (after (kv2_WriteSecretMetadata amb c path cfg)) =
     (if path = [] then mountPath c else mountOr kv2_defaultMountPath c)"
  "mountPath (after (kv2_DeleteSecretMetadata amb c path)) =
     (if path = [] then mountPath c else mountOr kv2_defaultMountPath c)"
  by (auto simp: kv2_ReadSecretVersion_def kv2_WriteSecretVersion_def kv2_DeleteSecretLatest_def
      kv2_ListSecrets_def kv2_ReadSecretMetadata_def kv2_WriteSecretMetadata_def
      kv2_DeleteSecretMetadata_def Let_def
      dest!: kv2_secretPath_mountPath vaultClient_mountPath'
      split: prod.splits sum.splits option.splits)

lemma kv2_mountPath_after_direct:
  "mountPath (after (kv2_SetEngineConfig amb c cfg)) = mountPath c"
  "mountPath (after (kv2_EngineConfig amb c)) = mountPath c"
  "mountPath (after (kv2_DeleteSecretVersion amb c path version)) = mountPath c"
  "mountPath (after (kv2_UndeleteSecretVersion amb c path version)) = mountPath c"
  "mountPath (after (kv2_DestroySecretVersion amb c path version)) = mountPath c"
  by (auto simp: kv2_SetEngineConfig_def kv2_EngineConfig_def kv2_DeleteSecretVersion_def
      kv2_UndeleteSecretVersion_def kv2_DestroySecretVersion_def Let_def
      dest!: vaultClient_mountPath'
      split: prod.splits sum.splits option.splits)

text \<open>
  Claim C4 does not hold of five operations of kv/v2: on a client created with the empty
  mount path the three version operations and the two configuration operations build
  their path from the empty mount and leave it empty, where \<open>DeleteSecretLatest\<close>
  uses and stores \<open>/secret\<close>.
\<close>

theorem kv2_unset_mount_not_defaulted:
  "calls (kv2_DeleteSecretVersion (Inl (NewClientError []))
      (NewClient [] (Some (answering None))) ''foo'' [1])
     = [Write ''delete/foo'' [(''versions'', VSlice [VInt 1])]]
   \<and> mountPath (after (kv2_DeleteSecretVersion (Inl (NewClientError []))
      (NewClient [] (Some (answering None))) ''foo'' [1]))
     = []
   \<and> calls (kv2_UndeleteSecretVersion (Inl (NewClientError []))
      (NewClient [] (Some (answering None))) ''foo'' [1])
     = [Write ''undelete/foo'' [(''versions'', VSlice [VInt 1])]]
   \<and> calls (kv2_DestroySecretVersion (Inl (NewClientError []))
      (NewClient [] (Some (answering None))) ''foo'' [1])
     = [Write ''destroy/foo'' [(''versions'', VSlice [VInt 1])]]
   \<and> calls (kv2_EngineConfig (Inl (NewClientError [])) (NewClient [] (Some (answering None))))
     = [Read ''config'']
   \<and> calls (kv2_SetEngineConfig (Inl (NewClientError [])) (NewClient [] (Some (answering None)))
        SecretConfig_zero)
     = [Write ''config'' []]
   \<and> calls (kv2_DeleteSecretLatest (Inl (NewClientError []))
      (NewClient [] (Some (answering None))) ''foo'')
     = [Delete ''/secret/data/foo'']
   \<and> mountPath (after (kv2_DeleteSecretLatest (Inl (NewClientError []))
      (NewClient [] (Some (answering None))) ''foo''))
     = ''/secret''"
  by (simp add: kv2_DeleteSecretVersion_def kv2_UndeleteSecretVersion_def
      kv2_DestroySecretVersion_def kv2_EngineConfig_def kv2_SetEngineConfig_def
      kv2_DeleteSecretLatest_def SecretConfig_toMap_def SecretConfig_zero_def
      versionsPayload_def eval_defs)

section \<open>The engine configuration\<close>

lemma fieldValue_data_toMap: "fieldValue ''data'' (SecretConfig_toMap cfg) = None"
  by (simp add: SecretConfig_toMap_def fieldValue_def foldRune_def toLowerASCII_def)

lemma SecretConfig_fromMap_toMap:
  "SecretConfig_fromMap (SecretConfig_toMap cfg) = Inr SecretConfig_zero"
  by (simp add: SecretConfig_toMap_def SecretConfig_fromMap_def SecretConfig_zero_def
      decodeField_def fieldValue_def foldRune_def toLowerASCII_def)

lemma bitlen_bound: "a < 2 ^ k \<Longrightarrow> bitlen a \<le> k"
proof (induction k arbitrary: a)
  case 0
  then have "a = 0" by simp
  then show ?case by (simp add: bitlen.simps)
next
  case (Suc k)
  show ?case
  proof (cases "a = 0")
    case True
    then show ?thesis by (simp add: bitlen.simps)
  next
    case False
    from Suc.prems have "a div 2 < 2 ^ k" by simp
    then have "bitlen (a div 2) \<le> k" by (rule Suc.IH)
    with False show ?thesis by (subst bitlen.simps) simp
  qed
qed

text \<open>Below \<open>2 ^ 53\<close> every integer is a float64.\<close>

lemma float64_of_int_exact:
  assumes "\<bar>n\<bar> < 2 ^ 53"
  shows "float64_of_int n = n"
proof -
  from assms have "nat \<bar>n\<bar> < 2 ^ 53" by (simp add: nat_less_iff)
  then have "bitlen (nat \<bar>n\<bar>) \<le> 53" by (rule bitlen_bound)
  then have "\<not> 53 < bitlen (nat \<bar>n\<bar>)" by simp
  then have "float64_of_int n = sgn n * int (nat \<bar>n\<bar>)"
    by (simp add: float64_of_int_def Let_def)
  then show ?thesis by (simp add: sgn_if)
qed

lemma kv2_SetEngineConfig_calls_ok:
  assumes "transportOf amb c = Some cl"
  shows "calls (kv2_SetEngineConfig amb c cfg) =
           [Write (pathJoin [mountPath c, ''config'']) (SecretConfig_toMap cfg)]"
  using assms by (simp add: kv2_SetEngineConfig_def vaultClient_ok Let_def)

text \<open>
  Whatever configuration was written, reading it back gives the zero configuration:
  both when the response data is the written map itself and when it holds that map
  under \<open>data\<close>.
\<close>

lemma kv2_EngineConfig_after_SetEngineConfig:
  assumes "transportOf amb c = Some cl"
    and "cl (Read (pathJoin [mountPath c, ''config''])) = Inr (Some \<lparr>Data = d\<rparr>)"
    and "d = SecretConfig_toMap cfg \<or> d = [(''data'', VMap (SecretConfig_toMap cfg))]"
  shows "result (kv2_EngineConfig amb c) = Inr SecretConfig_zero"
proof -
  have "decodeField (decodeStruct SecretConfig_fromMap SecretConfig_zero) SecretConfig_zero
          ''data'' d = Inr SecretConfig_zero"
  proof (cases "d = SecretConfig_toMap cfg")
    case True
    then show ?thesis
      by (simp add: decodeField_def fieldValue_data_toMap)
  next
    case False
    with assms(3) have "d = [(''data'', VMap (SecretConfig_toMap cfg))]" by simp
    then show ?thesis
      by (simp add: decodeField_def decodeStruct_def fieldValue_def SecretConfig_fromMap_toMap)
  qed
  with assms(1,2) show ?thesis
    by (simp add: kv2_EngineConfig_def vaultClient_ok Let_def secretData_def)
qed

text \<open>
  Claim C8 does not hold: \<open>SetEngineConfig\<close> writes the serialized configuration, and
  \<open>EngineConfig\<close> on a response carrying that map (as its data, or under \<open>data\<close>)
  returns the zero configuration.
\<close>

theorem kv2_EngineConfig_loses_written_config:
  "calls (kv2_SetEngineConfig (Inl (NewClientError [])) (NewClient ''/secret'' (Some (answering None)))
      \<lparr>cfg_MaxVersions = 5, cfg_CASRequired = True, cfg_DeleteVersionAfter = 0\<rparr>)
     = [Write ''/secret/config'' [(''max_versions'', VFloat64 5), (''cas_required'', VBool True)]]
   \<and> calls (kv2_EngineConfig (Inl (NewClientError []))
      (NewClient ''/secret'' (Some (answering (Some
         \<lparr>Data = [(''max_versions'', VFloat64 5), (''cas_required'', VBool True)]\<rparr>)))))
     = [Read ''/secret/config'']
   \<and> result (kv2_EngineConfig (Inl (NewClientError []))
      (NewClient ''/secret'' (Some (answering (Some
         \<lparr>Data = [(''max_versions'', VFloat64 5), (''cas_required'', VBool True)]\<rparr>)))))
     = Inr \<lparr>cfg_MaxVersions = 0, cfg_CASRequired = False, cfg_DeleteVersionAfter = 0\<rparr>
   \<and> result (kv2_EngineConfig (Inl (NewClientError []))
      (NewClient ''/secret'' (Some (answering (Some
         \<lparr>Data = [(''data'', VMap [(''max_versions'', VFloat64 5),
                                    (''cas_required'', VBool True)])]\<rparr>)))))
     = Inr \<lparr>cfg_MaxVersions = 0, cfg_CASRequired = False, cfg_DeleteVersionAfter = 0\<rparr>"
  by (simp add: kv2_SetEngineConfig_def kv2_EngineConfig_def SecretConfig_toMap_def
      SecretConfig_fromMap_def SecretConfig_zero_def float64_of_int_exact
      decodeField_def decodeStruct_def fieldValue_def foldRune_def toLowerASCII_def eval_defs)

end
